theory Spec2Isabelle
  imports Complex_Main "HOL-Library.Char_ord" "HOL-Library.List_Lexorder"
begin

section \<open>Floating-point cells\<close>

text \<open>
  The pandas tables of the program hold float64 cells. They are modelled as extended
  reals with a not-a-number value: a finite cell is an exact real (rounding and
  overflow are not modelled, nor is the sign of zero), and the two infinities and NaN
  follow the IEEE rules that the program relies on (\<open>x / 0\<close>, \<open>0 / 0\<close>,
  \<open>inf - inf\<close>, NaN propagation). A missing cell of a table is NaN, as in pandas.
\<close>

datatype fl = Num real | PInf | NInf | NaN

fun isnan :: "fl \<Rightarrow> bool" where
  "isnan NaN = True"
| "isnan _ = False"

fun isfinite :: "fl \<Rightarrow> bool" where
  "isfinite (Num _) = True"
| "isfinite _ = False"

fun fl_neg :: "fl \<Rightarrow> fl" where
  "fl_neg (Num a) = Num (- a)"
| "fl_neg PInf = NInf"
| "fl_neg NInf = PInf"
| "fl_neg NaN = NaN"

fun fl_add :: "fl \<Rightarrow> fl \<Rightarrow> fl" where
  "fl_add NaN _ = NaN"
| "fl_add _ NaN = NaN"
| "fl_add (Num a) (Num b) = Num (a + b)"
| "fl_add PInf NInf = NaN"
| "fl_add NInf PInf = NaN"
| "fl_add PInf _ = PInf"
| "fl_add NInf _ = NInf"
| "fl_add _ PInf = PInf"
| "fl_add _ NInf = NInf"

definition fl_sub :: "fl \<Rightarrow> fl \<Rightarrow> fl" where
  "fl_sub a b = fl_add a (fl_neg b)"

text \<open>The sign of an infinite product or quotient: \<open>inf * 0\<close> is NaN.\<close>

definition signed_inf :: "real \<Rightarrow> fl" where
  "signed_inf s = (if s > 0 then PInf else if s < 0 then NInf else NaN)"

fun fl_mul :: "fl \<Rightarrow> fl \<Rightarrow> fl" where
  "fl_mul NaN _ = NaN"
| "fl_mul _ NaN = NaN"
| "fl_mul (Num a) (Num b) = Num (a * b)"
| "fl_mul PInf (Num b) = signed_inf b"
| "fl_mul NInf (Num b) = signed_inf (- b)"
| "fl_mul (Num a) PInf = signed_inf a"
| "fl_mul (Num a) NInf = signed_inf (- a)"
| "fl_mul PInf PInf = PInf"
| "fl_mul NInf NInf = PInf"
| "fl_mul PInf NInf = NInf"
| "fl_mul NInf PInf = NInf"

text \<open>
  Division of floats never raises in numpy and pandas: a non-zero numerator over zero
  is an infinity, \<open>0 / 0\<close> and \<open>inf / inf\<close> are NaN.
\<close>

fun fl_div :: "fl \<Rightarrow> fl \<Rightarrow> fl" where
  "fl_div NaN _ = NaN"
| "fl_div _ NaN = NaN"
| "fl_div (Num a) (Num b) = (if b = 0 then signed_inf a else Num (a / b))"
| "fl_div (Num a) PInf = Num 0"
| "fl_div (Num a) NInf = Num 0"
| "fl_div PInf (Num b) = (if b < 0 then NInf else PInf)"
| "fl_div NInf (Num b) = (if b < 0 then PInf else NInf)"
| "fl_div _ _ = NaN"

fun fl_sqrt :: "fl \<Rightarrow> fl" where
  "fl_sqrt (Num a) = (if a < 0 then NaN else Num (sqrt a))"
| "fl_sqrt PInf = PInf"
| "fl_sqrt NInf = NaN"
| "fl_sqrt NaN = NaN"

definition fl_sum :: "fl list \<Rightarrow> fl" where
  "fl_sum xs = foldl fl_add (Num 0) xs"

section \<open>Tables\<close>

type_synonym date = nat
type_synonym ticker = string

text \<open>
  A wide frame: the column labels, and one row per index entry (a date) holding one
  cell per column (pandas has no ragged frames; the statements that read a cell by its
  position are about frames whose rows are as wide as the list of labels). A pandas
  Series is a single run of (date, cell) pairs. Dates are day numbers.
\<close>

record wide =
  columns :: "ticker list"
  body :: "(date \<times> fl list) list"

text \<open>
  What \<open>data['Close']\<close> evaluates to: a Series when the downloaded table has flat
  columns (one instrument, no ticker level), a DataFrame keyed by ticker otherwise.
\<close>

datatype close = Series "(date \<times> fl) list" | Frame wide

text \<open>One row of the long table that the ETL writes: (date, ticker, daily_return).\<close>

record return_record =
  date :: date
  ticker :: ticker
  daily_return :: fl

datatype py_error = AttributeError | KeyError | ValueError

section \<open>etl_to_csv.py / etl_yfinance_postgres.py: transform_data\<close>

text \<open>
  \<open>pct_change\<close> divides every cell by the cell one row above and subtracts one; the
  first row has nothing above it and is all NaN. Up to pandas 2.x the default
  \<open>fill_method\<close> forward-fills missing prices first, from pandas 3 on it does not:
  the flag \<open>pad\<close> selects between the two, and the results below hold for both.
\<close>

definition pct :: "fl \<Rightarrow> fl \<Rightarrow> fl" where
  "pct prev cur = fl_sub (fl_div cur prev) (Num 1)"

definition ffill_cell :: "fl \<Rightarrow> fl \<Rightarrow> fl" where
  "ffill_cell prev cur = (if isnan cur then prev else cur)"

fun ffill :: "fl list \<Rightarrow> (date \<times> fl list) list \<Rightarrow> (date \<times> fl list) list" where
  "ffill prev [] = []"
| "ffill prev ((d, cs) # rs) =
     (let cs' = map2 ffill_cell prev cs in (d, cs') # ffill cs' rs)"

fun pct_rows :: "fl list \<Rightarrow> (date \<times> fl list) list \<Rightarrow> (date \<times> fl list) list" where
  "pct_rows prev [] = []"
| "pct_rows prev ((d, cs) # rs) = (d, map2 pct prev cs) # pct_rows cs rs"

definition pct_change_rows :: "bool \<Rightarrow> nat \<Rightarrow> (date \<times> fl list) list \<Rightarrow> (date \<times> fl list) list" where
  "pct_change_rows pad n rs =
     pct_rows (replicate n NaN) (if pad then ffill (replicate n NaN) rs else rs)"

text \<open>\<open>dropna()\<close> with its defaults drops every row that holds a NaN in any column.\<close>

definition dropna_rows :: "(date \<times> fl list) list \<Rightarrow> (date \<times> fl list) list" where
  "dropna_rows rs = filter (\<lambda>r. \<not> list_ex isnan (snd r)) rs"

text \<open>
  A Series as rows of one cell and back. \<open>rows_series\<close> is only applied to rows
  that came from \<open>series_rows\<close>, which hold exactly one cell.
\<close>

definition series_rows :: "(date \<times> fl) list \<Rightarrow> (date \<times> fl list) list" where
  "series_rows s = map (\<lambda>(d, x). (d, [x])) s"

definition rows_series :: "(date \<times> fl list) list \<Rightarrow> (date \<times> fl) list" where
  "rows_series rs = map (\<lambda>(d, cs). (d, hd cs)) rs"

fun pct_change :: "bool \<Rightarrow> close \<Rightarrow> close" where
  "pct_change pad (Series s) = Series (rows_series (pct_change_rows pad 1 (series_rows s)))"
| "pct_change pad (Frame w) =
     Frame (w\<lparr>body := pct_change_rows pad (length (columns w)) (body w)\<rparr>)"

fun dropna :: "close \<Rightarrow> close" where
  "dropna (Series s) = Series (rows_series (dropna_rows (series_rows s)))"
| "dropna (Frame w) = Frame (w\<lparr>body := dropna_rows (body w)\<rparr>)"

text \<open>
  \<open>to_frame(name=...)\<close> exists on a Series only; on a DataFrame the attribute lookup
  raises AttributeError.
\<close>

fun to_frame :: "close \<Rightarrow> ticker \<Rightarrow> py_error + close" where
  "to_frame (Series s) name = Inr (Frame \<lparr>columns = [name], body = series_rows s\<rparr>)"
| "to_frame (Frame w) name = Inl AttributeError"

text \<open>
  \<open>reset_index()\<close> turns the index into a column named \<open>Date\<close>; it raises ValueError
  when a column of that name exists already. A Series selected as \<open>data['Close']\<close>
  is named \<open>Close\<close>, which becomes the label of its only column. The rows keep their
  date, so the \<open>Date\<close> column is the first component of each row.
\<close>

fun reset_index :: "close \<Rightarrow> py_error + wide" where
  "reset_index (Series s) = Inr \<lparr>columns = [''Close''], body = series_rows s\<rparr>"
| "reset_index (Frame w) = (if ''Date'' \<in> set (columns w) then Inl ValueError else Inr w)"

text \<open>The first occurrence of every element, in order (\<open>algos.unique\<close>).\<close>

definition unique :: "'a list \<Rightarrow> 'a list" where
  "unique xs = rev (remdups (rev xs))"

fun index_of :: "'a \<Rightarrow> 'a list \<Rightarrow> nat" where
  "index_of x [] = 0"
| "index_of x (y # ys) = (if x = y then 0 else Suc (index_of x ys))"

text \<open>
  \<open>melt(id_vars=['Date'], value_vars=..., var_name='ticker', value_name='daily_return')\<close>
  on the frame after \<open>reset_index\<close>: a label of \<open>value_vars\<close> that is no column of
  the frame raises KeyError; otherwise the value columns are stacked one below the
  other, in the order of \<open>value_vars\<close>, each paired with the dates. The \<open>Date\<close>
  column itself is popped as the identifier and is never a value column.
\<close>

definition melt_column :: "wide \<Rightarrow> ticker \<Rightarrow> return_record list" where
  "melt_column w v =
     map (\<lambda>(d, cs). \<lparr>date = d, ticker = v, daily_return = cs ! index_of v (columns w)\<rparr>) (body w)"

definition melt :: "wide \<Rightarrow> ticker list \<Rightarrow> py_error + return_record list" where
  "melt w value_vars =
     (if list_ex (\<lambda>v. v \<notin> set (''Date'' # columns w)) value_vars then Inl KeyError
      else Inr (concat (map (melt_column w) (unique (filter (\<lambda>v. v \<noteq> ''Date'') value_vars)))))"

text \<open>
  The labels handed to \<open>melt\<close>: the requested tickers, unless the returns are a
  DataFrame with exactly one column, whose own label is taken.
\<close>

fun value_vars_of :: "close \<Rightarrow> ticker list \<Rightarrow> ticker list" where
  "value_vars_of (Series s) tickers = tickers"
| "value_vars_of (Frame w) tickers = (if length (columns w) = 1 then columns w else tickers)"

definition select_close :: "close \<Rightarrow> ticker list \<Rightarrow> py_error + close" where
  "select_close data_close tickers =
     (if length tickers = 1 then to_frame data_close (hd tickers) else Inr data_close)"

definition transform_body :: "bool \<Rightarrow> close \<Rightarrow> ticker list \<Rightarrow> py_error + return_record list" where
  "transform_body pad data_close tickers =
     (case select_close data_close tickers of
        Inl e \<Rightarrow> Inl e
      | Inr adj_close \<Rightarrow>
          (let daily_returns = dropna (pct_change pad adj_close);
               value_vars = value_vars_of daily_returns tickers
           in case reset_index daily_returns of
                Inl e \<Rightarrow> Inl e
              | Inr fr \<Rightarrow> melt fr value_vars))"

text \<open>The \<open>try\<close> block: any exception is printed and the function returns None.\<close>

definition transform_data :: "bool \<Rightarrow> close \<Rightarrow> ticker list \<Rightarrow> return_record list option" where
  "transform_data pad data_close tickers =
     (case transform_body pad data_close tickers of Inl e \<Rightarrow> None | Inr df_final \<Rightarrow> Some df_final)"

section \<open>Observations on the transform\<close>

text \<open>
  The notions the statements about \<open>transform_data\<close> are phrased in: the rows and
  labels of a price table, the returns computed from it, the dates that survive
  \<open>dropna\<close>, the tickers that reach the output, and the records of one ticker.
\<close>

fun adj_rows :: "close \<Rightarrow> (date \<times> fl list) list" where
  "adj_rows (Series s) = series_rows s"
| "adj_rows (Frame w) = body w"

fun ncols :: "close \<Rightarrow> nat" where
  "ncols (Series s) = 1"
| "ncols (Frame w) = length (columns w)"

definition return_rows :: "bool \<Rightarrow> close \<Rightarrow> (date \<times> fl list) list" where
  "return_rows pad a = pct_change_rows pad (ncols a) (adj_rows a)"

definition surviving_dates :: "bool \<Rightarrow> close \<Rightarrow> ticker list \<Rightarrow> date list" where
  "surviving_dates pad c tickers =
     (case select_close c tickers of
        Inl e \<Rightarrow> []
      | Inr a \<Rightarrow> map fst (filter (\<lambda>r. list_all (\<lambda>x. \<not> isnan x) (snd r)) (return_rows pad a)))"

definition emitted :: "close \<Rightarrow> ticker list \<Rightarrow> ticker list" where
  "emitted c tickers =
     (case select_close c tickers of
        Inl e \<Rightarrow> []
      | Inr a \<Rightarrow> unique (filter (\<lambda>v. v \<noteq> ''Date'') (value_vars_of a tickers)))"

definition records_of :: "ticker \<Rightarrow> return_record list \<Rightarrow> return_record list" where
  "records_of t recs = filter (\<lambda>r. ticker r = t) recs"


text \<open>
  A priced cell is a finite, positive price. A table is complete when every row has a
  priced cell in every column, so no instrument has a gap on any date.
\<close>

fun priced :: "fl \<Rightarrow> bool" where
  "priced (Num p) = (p > 0)"
| "priced _ = False"

definition complete_rows :: "nat \<Rightarrow> (date \<times> fl list) list \<Rightarrow> bool" where
  "complete_rows n rs = list_all (\<lambda>r. length (snd r) = n \<and> list_all priced (snd r)) rs"




definition width_is :: "nat \<Rightarrow> (date \<times> fl list) list \<Rightarrow> bool" where
  "width_is n rs = list_all (\<lambda>r. length (snd r) = n) rs"


text \<open>The ticker labels the price table carries, as the transform reads them.\<close>

fun table_labels :: "close \<Rightarrow> ticker list \<Rightarrow> ticker list" where
  "table_labels (Series s) tickers = (if length tickers = 1 then [hd tickers] else [''Close''])"
| "table_labels (Frame w) tickers = columns w"

text \<open>Sample tables.\<close>

definition tblX :: close where
  "tblX = Frame \<lparr>columns = [''A'', ''B''],
     body = [(1, [Num 100, NaN]), (2, [Num 110, Num 50]), (3, [Num 121, Num 55])]\<rparr>"

definition recsX :: "return_record list" where
  "recsX = [\<lparr>date = 3, ticker = ''A'', daily_return = Num (1/10)\<rparr>,
            \<lparr>date = 3, ticker = ''B'', daily_return = Num (1/10)\<rparr>]"



definition tblZ :: close where
  "tblZ = Frame \<lparr>columns = [''A''], body = [(1, [Num 100]), (2, [Num 110])]\<rparr>"


section \<open>analysis_and_report.py\<close>

subsection \<open>The long frame\<close>

text \<open>
  The frame \<open>df\<close> read from \<open>rendimientos_diarios.csv\<close>: its rows are the records
  (columns \<open>date\<close>, \<open>ticker\<close>, \<open>daily_return\<close>), and \<open>extra_columns\<close> holds the
  float columns that are assigned to the frame later, by label, in assignment order.
  A frame is a mutable object: a function that assigns to it is modelled as returning
  the frame it leaves behind.
\<close>

record long_frame =
  records :: "return_record list"
  extra_columns :: "(string \<times> fl list) list"

text \<open>\<open>df[label] = values\<close>: replaces the column of that label, or appends a new one.\<close>

fun set_column :: "string \<Rightarrow> fl list \<Rightarrow> (string \<times> fl list) list \<Rightarrow> (string \<times> fl list) list" where
  "set_column k v [] = [(k, v)]"
| "set_column k v ((k', v') # cs) =
     (if k = k' then (k, v) # cs else (k', v') # set_column k v cs)"

subsection \<open>Reductions that skip NaN\<close>

definition valid :: "fl list \<Rightarrow> fl list" where
  "valid xs = filter (\<lambda>x. \<not> isnan x) xs"

text \<open>The mean of the values that are not NaN; NaN (\<open>0 / 0\<close>) when there is none.\<close>

definition mean_fl :: "fl list \<Rightarrow> fl" where
  "mean_fl xs = (let v = valid xs in fl_div (fl_sum v) (Num (real (length v))))"

text \<open>
  The sample variance (\<open>ddof = 1\<close>) of the values that are not NaN: NaN when at most
  one value is left, the sum of squared deviations over \<open>n - 1\<close> otherwise.
\<close>

definition sq_dev :: "fl \<Rightarrow> fl \<Rightarrow> fl" where
  "sq_dev m x = (let dx = fl_sub x m in fl_mul dx dx)"

definition var_fl :: "fl list \<Rightarrow> fl" where
  "var_fl xs =
     (let v = valid xs; n = length v
      in if n \<le> 1 then NaN
         else fl_div (fl_sum (map (sq_dev (mean_fl v)) v)) (Num (real n - 1)))"

definition std_fl :: "fl list \<Rightarrow> fl" where
  "std_fl xs = fl_sqrt (var_fl xs)"

subsection \<open>Grouping by ticker\<close>

text \<open>
  \<open>df.groupby('ticker')['daily_return']\<close>: the group keys are the tickers of the
  frame, sorted, and the values of a group are the returns of its rows in row order.
\<close>

definition group_keys :: "long_frame \<Rightarrow> ticker list" where
  "group_keys df = sort (remdups (map ticker (records df)))"

definition group_values :: "long_frame \<Rightarrow> ticker \<Rightarrow> fl list" where
  "group_values df t = map daily_return (filter (\<lambda>r. ticker r = t) (records df))"

definition group_agg :: "(fl list \<Rightarrow> 'a) \<Rightarrow> long_frame \<Rightarrow> (ticker \<times> 'a) list" where
  "group_agg f df = map (\<lambda>t. (t, f (group_values df t))) (group_keys df)"

subsection \<open>calculate_statistics\<close>








record description =
  d_count :: nat
  d_mean :: fl
  d_std :: fl
  d_min :: fl
  d_q25 :: fl
  d_q50 :: fl
  d_q75 :: fl
  d_max :: fl



subsection \<open>calculate_cumulative_returns\<close>

text \<open>
  \<open>cumprod()\<close> skips NaN: a NaN entry stays NaN and does not enter the running
  product.
\<close>

fun cumprod_from :: "fl \<Rightarrow> fl list \<Rightarrow> fl list" where
  "cumprod_from acc [] = []"
| "cumprod_from acc (x # xs) =
     (if isnan x then NaN # cumprod_from acc xs
      else (let acc' = fl_mul acc x in acc' # cumprod_from acc' xs))"

definition cumprod :: "fl list \<Rightarrow> fl list" where
  "cumprod xs = cumprod_from (Num 1) xs"

text \<open>\<open>(1 + s).cumprod() - 1\<close> on a column \<open>s\<close>.\<close>

definition cumulative :: "fl list \<Rightarrow> fl list" where
  "cumulative s = map (\<lambda>x. fl_sub x (Num 1)) (cumprod (map (fl_add (Num 1)) s))"

text \<open>
  The function assigns the new column to the frame it was given and returns that same
  frame. The product runs over the \<open>daily_return\<close> column of the whole frame, in row
  order.
\<close>

definition calculate_cumulative_returns :: "long_frame \<Rightarrow> long_frame" where
  "calculate_cumulative_returns df =
     df\<lparr>extra_columns :=
          set_column ''cumulative_return'' (cumulative (map daily_return (records df)))
            (extra_columns df)\<rparr>"

subsection \<open>calculate_annualized_volatility and calculate_sharpe_ratio\<close>

definition annualize :: "fl \<Rightarrow> fl" where
  "annualize x = fl_mul x (Num (sqrt 252))"


definition sharpe :: "fl \<Rightarrow> fl list \<Rightarrow> fl" where
  "sharpe risk_free_rate g =
     (let mean_return = fl_mul (mean_fl g) (Num 252);
          std_dev = fl_mul (std_fl g) (Num (sqrt 252))
      in fl_div (fl_sub mean_return risk_free_rate) std_dev)"

definition calculate_sharpe_ratio :: "long_frame \<Rightarrow> fl \<Rightarrow> (ticker \<times> fl) list" where
  "calculate_sharpe_ratio df risk_free_rate = group_agg (sharpe risk_free_rate) df"

text \<open>The default of the keyword argument: \<open>risk_free_rate=0.0\<close>.\<close>

definition calculate_sharpe_ratio_default :: "long_frame \<Rightarrow> (ticker \<times> fl) list" where
  "calculate_sharpe_ratio_default df = calculate_sharpe_ratio df (Num 0)"

subsection \<open>The pivot\<close>

text \<open>
  \<open>df.pivot(index='date', columns='ticker', values='daily_return')\<close>: one row per
  date and one column per ticker, both sorted; a cell without a record is NaN. Two
  records with the same date and ticker raise ValueError.
\<close>

definition cell :: "return_record list \<Rightarrow> date \<Rightarrow> ticker \<Rightarrow> fl" where
  "cell rs d t =
     (case find (\<lambda>r. date r = d \<and> ticker r = t) rs of
        None \<Rightarrow> NaN
      | Some r \<Rightarrow> daily_return r)"

definition pivot_dates :: "long_frame \<Rightarrow> date list" where
  "pivot_dates df = sort (remdups (map date (records df)))"

definition pivot :: "long_frame \<Rightarrow> py_error + wide" where
  "pivot df =
     (if \<not> distinct (map (\<lambda>r. (date r, ticker r)) (records df)) then Inl ValueError
      else Inr \<lparr>columns = group_keys df,
                body = map (\<lambda>d. (d, map (cell (records df) d) (group_keys df))) (pivot_dates df)\<rparr>)"

text \<open>Column \<open>j\<close> of a wide frame, and a frame rebuilt from transformed columns.\<close>

definition column :: "wide \<Rightarrow> nat \<Rightarrow> fl list" where
  "column w j = map (\<lambda>r. snd r ! j) (body w)"

definition map_columns :: "(fl list \<Rightarrow> fl list) \<Rightarrow> wide \<Rightarrow> wide" where
  "map_columns f w =
     (let cs = map (\<lambda>j. f (column w j)) [0..<length (columns w)]
      in w\<lparr>body := map (\<lambda>i. (fst (body w ! i), map (\<lambda>c. c ! i) cs)) [0..<length (body w)]\<rparr>)"

subsection \<open>calculate_correlation\<close>

text \<open>
  \<open>df_pivot.corr()\<close>: Pearson correlation of every pair of columns over the rows in
  which both cells are finite, with at least one such row; a zero divisor gives NaN.
  Each pair is computed once, for the column of the larger position against the one of
  the smaller, and stored in both places of the matrix.
\<close>

fun finite_pair :: "fl \<times> fl \<Rightarrow> (real \<times> real) list" where
  "finite_pair (Num x, Num y) = [(x, y)]"
| "finite_pair _ = []"

definition paired :: "fl list \<Rightarrow> fl list \<Rightarrow> (real \<times> real) list" where
  "paired xs ys = concat (map finite_pair (zip xs ys))"

definition mean_real :: "real list \<Rightarrow> real" where
  "mean_real xs = sum_list xs / real (length xs)"

definition ssqdm :: "real list \<Rightarrow> real" where
  "ssqdm xs = sum_list (map (\<lambda>x. (x - mean_real xs) * (x - mean_real xs)) xs)"

definition covxy :: "(real \<times> real) list \<Rightarrow> real" where
  "covxy ps =
     sum_list (map (\<lambda>(x, y). (x - mean_real (map fst ps)) * (y - mean_real (map snd ps))) ps)"

definition nancorr :: "(real \<times> real) list \<Rightarrow> fl" where
  "nancorr ps =
     (if length ps < 1 then NaN
      else (let divisor = sqrt (ssqdm (map fst ps) * ssqdm (map snd ps))
            in if divisor \<noteq> 0 then Num (covxy ps / divisor) else NaN))"

definition corr_entry :: "wide \<Rightarrow> nat \<Rightarrow> nat \<Rightarrow> fl" where
  "corr_entry w i j = nancorr (paired (column w (max i j)) (column w (min i j)))"

definition calculate_correlation :: "wide \<Rightarrow> (ticker \<times> (ticker \<times> fl) list) list" where
  "calculate_correlation df_pivot =
     (let n = length (columns df_pivot)
      in map (\<lambda>i. (columns df_pivot ! i,
                   map (\<lambda>j. (columns df_pivot ! j, corr_entry df_pivot i j)) [0..<n])) [0..<n])"

subsection \<open>main: cumulative returns and rolling volatility of the pivot\<close>


text \<open>
  \<open>rolling(window).std()\<close> on one column: the entry of row \<open>i\<close> looks at the rows
  \<open>i - window + 1 .. i\<close> of the frame. Infinite cells count as missing. With fewer
  than \<open>window\<close> observations in these rows (\<open>min_periods\<close> defaults to the window
  length) the entry is NaN; otherwise it is the sample standard deviation of the
  observations.
\<close>

definition observations :: "fl list \<Rightarrow> fl list" where
  "observations ws = filter isfinite ws"

definition window_std :: "nat \<Rightarrow> fl list \<Rightarrow> fl" where
  "window_std window ws =
     (let obs = observations ws
      in if length obs < window then NaN else std_fl obs)"

definition rolling_std :: "nat \<Rightarrow> fl list \<Rightarrow> fl list" where
  "rolling_std window xs =
     map (\<lambda>i. window_std window (take (min window (i + 1)) (drop (i + 1 - window) xs)))
       [0..<length xs]"

definition rolling_volatility :: "nat \<Rightarrow> wide \<Rightarrow> wide" where
  "rolling_volatility window df_pivot =
     map_columns (\<lambda>c. map annualize (rolling_std window c)) df_pivot"

text \<open>\<open>rolling_vol = df_pivot.rolling(window=30).std() * np.sqrt(252)\<close>.\<close>

definition rolling_vol :: "wide \<Rightarrow> wide" where
  "rolling_vol df_pivot = rolling_volatility 30 df_pivot"

subsection \<open>The analysis functions on objects\<close>

text \<open>
  Python hands a frame to a function by reference. A store holds the objects, an
  address is a position in it, and a new object is put at the end. A function is given
  the address of its argument and the store; it returns the address of its result, or
  the exception, and the store it leaves. An argument that is no frame has none of the
  methods the functions call, which raises AttributeError.
\<close>

datatype object =
    DataFrame long_frame
  | StatsTable "(ticker \<times> description) list"
  | ScalarTable "(ticker \<times> fl) list"
  | WideFrame wide
  | Matrix "(ticker \<times> (ticker \<times> fl) list) list"

type_synonym store = "object list"


definition frame_at :: "store \<Rightarrow> nat \<Rightarrow> long_frame option" where
  "frame_at s a =
     (if a < length s then (case s ! a of DataFrame f \<Rightarrow> Some f | _ \<Rightarrow> None) else None)"









section \<open>Observations on the analysis\<close>

text \<open>
  The sample standard deviation of a list of reals, with the \<open>N - 1\<close> denominator,
  as the specification words it; the mean is \<open>mean_real\<close>.
\<close>

definition sample_std :: "real list \<Rightarrow> real" where
  "sample_std xs = sqrt (ssqdm xs / (real (length xs) - 1))"


text \<open>
  The dates on which two tickers both have a finite return, in date order, and the
  pairs of returns on these dates.
\<close>

fun the_num :: "fl \<Rightarrow> real" where
  "the_num (Num x) = x"
| "the_num _ = 0"

definition common_dates :: "long_frame \<Rightarrow> ticker \<Rightarrow> ticker \<Rightarrow> date list" where
  "common_dates df a b =
     filter (\<lambda>d. isfinite (cell (records df) d a) \<and> isfinite (cell (records df) d b)) (pivot_dates df)"

definition common_returns :: "long_frame \<Rightarrow> ticker \<Rightarrow> ticker \<Rightarrow> (real \<times> real) list" where
  "common_returns df a b =
     map (\<lambda>d. (the_num (cell (records df) d a), the_num (cell (records df) d b))) (common_dates df a b)"

text \<open>The entry of a correlation matrix for a pair of tickers.\<close>

definition corr_at :: "(ticker \<times> (ticker \<times> fl) list) list \<Rightarrow> ticker \<Rightarrow> ticker \<Rightarrow> fl option" where
  "corr_at m a b = (case map_of m a of None \<Rightarrow> None | Some row \<Rightarrow> map_of row b)"

text \<open>
  The dates of the pivot that the rolling window ending at row \<open>i\<close> covers, and the
  cells of one ticker on these dates.
\<close>

definition window_dates :: "long_frame \<Rightarrow> nat \<Rightarrow> nat \<Rightarrow> date list" where
  "window_dates df window i = take (min window (i + 1)) (drop (i + 1 - window) (pivot_dates df))"

definition window_cells :: "long_frame \<Rightarrow> ticker \<Rightarrow> nat \<Rightarrow> nat \<Rightarrow> fl list" where
  "window_cells df t window i = map (\<lambda>d. cell (records df) d t) (window_dates df window i)"

text \<open>The running product \<open>(1 + r\<^sub>0) \<dots> (1 + r\<^sub>k) - 1\<close> of a list of reals.\<close>

definition running_product :: "real list \<Rightarrow> real list" where
  "running_product xs = map (\<lambda>k. prod_list (map (\<lambda>r. 1 + r) (take (Suc k) xs)) - 1) [0..<length xs]"


text \<open>Sample frames.\<close>

definition dfS :: long_frame where
  "dfS = \<lparr>records = [\<lparr>date = 1, ticker = ''NVDA'', daily_return = Num 1\<rparr>,
                      \<lparr>date = 1, ticker = ''QQQ'', daily_return = Num 0\<rparr>,
                      \<lparr>date = 2, ticker = ''NVDA'', daily_return = Num 3\<rparr>],
           extra_columns = []\<rparr>"


definition dfM :: long_frame where
  "dfM = \<lparr>records = [\<lparr>date = 1, ticker = ''NVDA'', daily_return = Num (1/10)\<rparr>,
                      \<lparr>date = 1, ticker = ''QQQ'', daily_return = Num (1/5)\<rparr>],
           extra_columns = []\<rparr>"

definition df30 :: long_frame where
  "df30 = \<lparr>records =
       map (\<lambda>d. \<lparr>date = d, ticker = ''NVDA'', daily_return = Num (real d / 100)\<rparr>) [0..<31]
     @ map (\<lambda>d. \<lparr>date = d, ticker = ''QQQ'', daily_return = Num (real d / 100)\<rparr>)
         (filter (\<lambda>d. d \<noteq> 15) [0..<31]),
     extra_columns = []\<rparr>"

definition p30 :: wide where
  "p30 = \<lparr>columns = [''NVDA'', ''QQQ''],
           body = map (\<lambda>d. (d, [Num (real d / 100), if d = 15 then NaN else Num (real d / 100)])) [0..<31]\<rparr>"

definition dfW :: long_frame where
  "dfW = \<lparr>records = map (\<lambda>d. \<lparr>date = d, ticker = ''NVDA'', daily_return = Num (real d)\<rparr>) [1, 2, 3, 4, 5],
           extra_columns = []\<rparr>"

definition pW :: wide where
  "pW = \<lparr>columns = [''NVDA''],
          body = [(1, [Num 1]), (2, [Num 2]), (3, [Num 3]), (4, [Num 4]), (5, [Num 5])]\<rparr>"

definition dfC :: long_frame where
  "dfC = \<lparr>records = [\<lparr>date = 1, ticker = ''NVDA'', daily_return = Num (1/100)\<rparr>,
                      \<lparr>date = 1, ticker = ''QQQ'', daily_return = Num (1/50)\<rparr>,
                      \<lparr>date = 2, ticker = ''NVDA'', daily_return = Num (1/100)\<rparr>,
                      \<lparr>date = 2, ticker = ''QQQ'', daily_return = Num (3/100)\<rparr>],
           extra_columns = []\<rparr>"

definition pC :: wide where
  "pC = \<lparr>columns = [''NVDA'', ''QQQ''],
          body = [(1, [Num (1/100), Num (1/50)]), (2, [Num (1/100), Num (3/100)])]\<rparr>"

definition dfO :: long_frame where
  "dfO = \<lparr>records = [\<lparr>date = 1, ticker = ''NVDA'', daily_return = Num 1\<rparr>,
                      \<lparr>date = 2, ticker = ''NVDA'', daily_return = Num 2\<rparr>,
                      \<lparr>date = 3, ticker = ''NVDA'', daily_return = Num 1\<rparr>,
                      \<lparr>date = 4, ticker = ''NVDA'', daily_return = Num 3\<rparr>,
                      \<lparr>date = 3, ticker = ''QQQ'', daily_return = Num 2\<rparr>,
                      \<lparr>date = 4, ticker = ''QQQ'', daily_return = Num 6\<rparr>,
                      \<lparr>date = 5, ticker = ''QQQ'', daily_return = Num 5\<rparr>],
           extra_columns = []\<rparr>"

definition pO :: wide where
  "pO = \<lparr>columns = [''NVDA'', ''QQQ''],
          body = [(1, [Num 1, NaN]), (2, [Num 2, NaN]), (3, [Num 1, Num 2]),
                  (4, [Num 3, Num 6]), (5, [NaN, Num 5])]\<rparr>"




section \<open>Properties of the transform\<close>

subsection \<open>Stacking the value columns\<close>

lemma distinct_unique: "distinct (unique xs)"
  by (simp add: unique_def)


lemma records_of_melt_column:
  "records_of t (melt_column w v) = (if v = t then melt_column w v else [])"
  by (auto simp: records_of_def melt_column_def filter_empty_conv split: prod.splits)

lemma records_of_concat:
  "distinct vs \<Longrightarrow> records_of t (concat (map (melt_column w) vs)) = (if t \<in> set vs then melt_column w t else [])"
proof (induction vs)
  case Nil
  then show ?case by (simp add: records_of_def)
next
  case (Cons v vs)
  have split: "records_of t (concat (map (melt_column w) (v # vs))) =
      records_of t (melt_column w v) @ records_of t (concat (map (melt_column w) vs))"
    by (simp add: records_of_def)
  from Cons show ?case
    unfolding split by (auto simp: records_of_melt_column)
qed

lemma dates_melt_column: "map date (melt_column w v) = map fst (body w)"
  by (simp add: melt_column_def split_def)

lemma length_melt_column: "length (melt_column w v) = length (body w)"
  by (simp add: melt_column_def)

lemma length_concat_melt:
  "length (concat (map (melt_column w) vs)) = length (body w) * length vs"
  by (induction vs) (simp_all add: length_melt_column)

lemma fst_series_rows_rows_series: "map fst (series_rows (rows_series rs)) = map fst rs"
  by (simp add: series_rows_def rows_series_def split_def)

lemma dropna_rows_alt:
  "dropna_rows rs = filter (\<lambda>r. list_all (\<lambda>x. \<not> isnan x) (snd r)) rs"
  by (simp add: dropna_rows_def list_ex_iff list_all_iff)

lemma series_rows_rows_series:
  "list_all (\<lambda>r. length (snd r) = 1) rs \<Longrightarrow> series_rows (rows_series rs) = rs"
proof (induction rs)
  case Nil
  then show ?case by (simp add: series_rows_def rows_series_def)
next
  case (Cons r rs)
  obtain d cs where r: "r = (d, cs)" by (cases r)
  with Cons.prems obtain x where "cs = [x]" by (cases cs) auto
  with Cons r show ?case by (simp add: series_rows_def rows_series_def)
qed


lemma width_is_Nil [simp]: "width_is n []"
  by (simp add: width_is_def)

lemma width_is_Cons [simp]: "width_is n ((d, cs) # rs) = (length cs = n \<and> width_is n rs)"
  by (simp add: width_is_def)

lemma width_pct_rows: "length prev = n \<Longrightarrow> width_is n rs \<Longrightarrow> width_is n (pct_rows prev rs)"
  by (induction prev rs rule: pct_rows.induct) simp_all

lemma width_ffill: "length prev = n \<Longrightarrow> width_is n rs \<Longrightarrow> width_is n (ffill prev rs)"
  by (induction prev rs rule: ffill.induct) (simp_all add: Let_def)

lemma width_pct_change_rows: "width_is n rs \<Longrightarrow> width_is n (pct_change_rows pad n rs)"
  by (simp add: pct_change_rows_def width_pct_rows width_ffill)

lemma width_dropna_rows: "width_is n rs \<Longrightarrow> width_is n (dropna_rows rs)"
  by (simp add: width_is_def dropna_rows_def list_all_iff)

lemma width_series_rows: "width_is 1 (series_rows s)"
  by (induction s) (auto simp: series_rows_def width_is_def)

lemma series_rows_rows_series': "width_is 1 rs \<Longrightarrow> series_rows (rows_series rs) = rs"
  by (simp add: width_is_def series_rows_rows_series)

lemma width_return_rows_series: "width_is 1 (return_rows pad (Series s))"
  unfolding return_rows_def ncols.simps adj_rows.simps
  by (intro width_pct_change_rows width_series_rows)

lemma reset_index_body:
  assumes "reset_index (dropna (pct_change pad a)) = Inr fr"
  shows "body fr = dropna_rows (return_rows pad a)"
proof (cases a)
  case (Series s)
  have w: "width_is 1 (pct_change_rows pad 1 (series_rows s))"
    by (intro width_pct_change_rows width_series_rows)
  from assms Series have "body fr =
      series_rows (rows_series (dropna_rows (series_rows (rows_series (pct_change_rows pad 1 (series_rows s))))))"
    by auto
  also have "\<dots> = dropna_rows (pct_change_rows pad 1 (series_rows s))"
    using w by (simp add: series_rows_rows_series' width_dropna_rows)
  finally show ?thesis using Series by (simp add: return_rows_def)
next
  case (Frame w)
  with assms show ?thesis
    by (auto simp: return_rows_def split: if_splits)
qed


lemma value_vars_of_returns:
  "value_vars_of (dropna (pct_change pad a)) tickers = value_vars_of a tickers"
  by (cases a) simp_all

lemma transform_data_Some:
  assumes "transform_data pad c tickers = Some recs"
  obtains a fr where "select_close c tickers = Inr a"
    and "reset_index (dropna (pct_change pad a)) = Inr fr"
    and "recs = concat (map (melt_column fr) (emitted c tickers))"
  using assms
  by (auto simp: transform_data_def transform_body_def Let_def melt_def emitted_def
      value_vars_of_returns split: sum.splits if_splits)

lemmas transform_eval = transform_data_def transform_body_def select_close_def pct_change_rows_def
  dropna_rows_def melt_def melt_column_def unique_def pct_def fl_sub_def series_rows_def rows_series_def
  ffill_cell_def signed_inf_def

subsection \<open>The output is rectangular\<close>

text \<open>
  Claim C10. Whenever the transform returns a table, every emitted ticker has its
  records on exactly the dates that survive \<open>dropna\<close> (the dates on which no column
  of the returns is NaN), in that order; every record belongs to an emitted ticker;
  and the number of records is the number of surviving dates times the number of
  emitted tickers.
\<close>

theorem transform_rectangular:
  assumes "transform_data pad c tickers = Some recs"
  shows "(\<forall>t \<in> set (emitted c tickers). map date (records_of t recs) = surviving_dates pad c tickers)
       \<and> (\<forall>r \<in> set recs. ticker r \<in> set (emitted c tickers))
       \<and> length recs = length (surviving_dates pad c tickers) * length (emitted c tickers)"
proof -
  from assms obtain a fr where a: "select_close c tickers = Inr a"
    and fr: "reset_index (dropna (pct_change pad a)) = Inr fr"
    and recs: "recs = concat (map (melt_column fr) (emitted c tickers))"
    by (rule transform_data_Some)
  have body: "map fst (body fr) = surviving_dates pad c tickers"
    using reset_index_body [OF fr] a by (simp add: surviving_dates_def dropna_rows_alt)
  have d: "distinct (emitted c tickers)"
    by (simp add: emitted_def distinct_unique split: sum.splits)
  have 1: "\<forall>t \<in> set (emitted c tickers). map date (records_of t recs) = surviving_dates pad c tickers"
    using d body by (simp add: recs records_of_concat dates_melt_column)
  have 2: "\<forall>r \<in> set recs. ticker r \<in> set (emitted c tickers)"
    by (auto simp: recs melt_column_def)
  have "length (body fr) = length (surviving_dates pad c tickers)"
    using body by (metis length_map)
  then have 3: "length recs = length (surviving_dates pad c tickers) * length (emitted c tickers)"
    by (simp add: recs length_concat_melt)
  from 1 2 3 show ?thesis by blast
qed

theorem transform_rectangular_witness:
  "transform_data False tblX [''A'', ''B''] = Some recsX
   \<and> emitted tblX [''A'', ''B''] = [''A'', ''B'']
   \<and> surviving_dates False tblX [''A'', ''B''] = [3]
   \<and> map date (records_of ''B'' recsX) = [3]
   \<and> length recsX = 1 * 2"
proof -
  have run: "transform_data False tblX [''A'', ''B''] = Some recsX"
    by (simp add: tblX_def recsX_def transform_eval)
  have em: "emitted tblX [''A'', ''B''] = [''A'', ''B'']"
    by (simp add: emitted_def select_close_def tblX_def unique_def)
  have sv: "surviving_dates False tblX [''A'', ''B''] = [3]"
    by (simp add: surviving_dates_def return_rows_def select_close_def tblX_def transform_eval)
  from transform_rectangular [OF run] run em sv show ?thesis by simp
qed

subsection \<open>Records per ticker\<close>

lemma complete_rows_Nil [simp]: "complete_rows n []"
  by (simp add: complete_rows_def)

lemma complete_rows_Cons [simp]:
  "complete_rows n ((d, cs) # rs) = (length cs = n \<and> list_all priced cs \<and> complete_rows n rs)"
  by (auto simp: complete_rows_def)

















subsection \<open>An empty price table\<close>








subsection \<open>A requested ticker without a column\<close>

lemma single_ticker: "length tickers = 1 \<Longrightarrow> t \<in> set tickers \<Longrightarrow> t = hd tickers"
  by (cases tickers) auto

text \<open>
  The statement of claim C4 fails on the table \<open>tblX\<close> with a third requested ticker
  C: \<open>melt\<close> raises KeyError for the label without a column, the handler returns
  None, and the records of A and B are not produced either.
\<close>

theorem missing_ticker_counterexample:
  "''C'' \<in> set [''A'', ''B'', ''C''] \<and> ''C'' \<notin> set (table_labels tblX [''A'', ''B'', ''C''])
   \<and> transform_data False tblX [''A'', ''B'', ''C''] = None
   \<and> transform_data True tblX [''A'', ''B'', ''C''] = None"
  by (simp add: tblX_def transform_eval)

text \<open>
  Claim C4, as amended. When a requested ticker other than \<open>Date\<close> has no column in
  the price table, the transform returns a table only if more than one ticker (or none)
  is requested and the price table is a frame with exactly one column, not labelled
  \<open>Date\<close>: then the records of that one column are emitted under its own label. In
  every other case the transform returns None and no ticker has any record.
\<close>

theorem transform_missing_ticker:
  assumes "t \<in> set tickers" and "t \<notin> set (table_labels c tickers)" and "t \<noteq> ''Date''"
  shows "transform_data pad c tickers =
     (case c of
        Series s \<Rightarrow> None
      | Frame w \<Rightarrow>
          if length tickers \<noteq> 1 \<and> length (columns w) = 1 \<and> columns w \<noteq> [''Date'']
          then Some (melt_column (w\<lparr>body := dropna_rows (pct_change_rows pad 1 (body w))\<rparr>) (hd (columns w)))
          else None)"
proof (cases c)
  case (Series s)
  have l: "length tickers \<noteq> 1"
  proof
    assume one: "length tickers = 1"
    with assms(1) have "t = hd tickers" by (rule single_ticker [rotated])
    with assms(2) Series one show False by simp
  qed
  with assms(2) Series have tc: "t \<noteq> ''Close''"
    by simp
  have "list_ex (\<lambda>v. v \<notin> set [''Date'', ''Close'']) tickers"
    using assms(1,3) tc by (auto simp: list_ex_iff)
  then show ?thesis
    using Series l by (simp add: transform_data_def transform_body_def select_close_def melt_def)
next
  case (Frame w)
  show ?thesis
  proof (cases "length tickers = 1")
    case True
    then show ?thesis
      using Frame by (simp add: transform_data_def transform_body_def select_close_def)
  next
    case multi: False
    show ?thesis
    proof (cases "length (columns w) = 1")
      case True
      then obtain c0 where c0: "columns w = [c0]"
        by (cases "columns w") auto
      then show ?thesis
        using Frame multi
        by (simp add: transform_data_def transform_body_def select_close_def melt_def unique_def)
    next
      case False
      have "list_ex (\<lambda>v. v \<notin> set (''Date'' # columns w)) tickers"
        using assms Frame by (auto simp: list_ex_iff)
      then show ?thesis
        using Frame multi False
        by (simp add: transform_data_def transform_body_def select_close_def melt_def)
    qed
  qed
qed

theorem transform_missing_ticker_witness:
  "''B'' \<in> set [''A'', ''B''] \<and> ''B'' \<notin> set (table_labels tblZ [''A'', ''B'']) \<and> ''B'' \<noteq> ''Date''
   \<and> transform_data False tblZ [''A'', ''B''] =
        Some [\<lparr>date = 2, ticker = ''A'', daily_return = Num (1/10)\<rparr>]"
proof -
  have 1: "''B'' \<in> set [''A'', ''B'']" by simp
  have 2: "''B'' \<notin> set (table_labels tblZ [''A'', ''B''])" by (simp add: tblZ_def)
  have 3: "''B'' \<noteq> ''Date''" by simp
  from transform_missing_ticker [OF 1 2 3, of False] 1 2 3 show ?thesis
    by (simp add: tblZ_def transform_eval)
qed


section \<open>Properties of the analysis\<close>

subsection \<open>Reductions on finite values\<close>

lemma foldl_fl_add_Num: "foldl fl_add (Num a) (map Num xs) = Num (a + sum_list xs)"
  by (induction xs arbitrary: a) (simp_all add: add.assoc)

lemma fl_sum_Num: "fl_sum (map Num xs) = Num (sum_list xs)"
  by (simp add: fl_sum_def foldl_fl_add_Num)

lemma valid_Num: "valid (map Num xs) = map Num xs"
  by (induction xs) (simp_all add: valid_def)

lemma valid_valid: "valid (valid xs) = valid xs"
  by (simp add: valid_def)

lemma mean_fl_valid: "mean_fl (valid xs) = mean_fl xs"
  by (simp add: mean_fl_def valid_valid)

lemma var_fl_valid: "var_fl (valid xs) = var_fl xs"
  by (simp add: var_fl_def valid_valid)

lemma std_fl_valid: "std_fl (valid xs) = std_fl xs"
  by (simp add: std_fl_def var_fl_valid)

lemma mean_fl_Num: "xs \<noteq> [] \<Longrightarrow> mean_fl (map Num xs) = Num (mean_real xs)"
  by (simp add: mean_fl_def valid_Num fl_sum_Num mean_real_def)

lemma sq_dev_Num: "sq_dev (Num m) (Num x) = Num ((x - m) * (x - m))"
  by (simp add: sq_dev_def fl_sub_def)

lemma map_sq_dev_Num:
  "map (sq_dev (Num m)) (map Num xs) = map Num (map (\<lambda>x. (x - m) * (x - m)) xs)"
  by (simp add: sq_dev_Num)

lemma var_fl_Num:
  "2 \<le> length xs \<Longrightarrow> var_fl (map Num xs) = Num (ssqdm xs / (real (length xs) - 1))"
proof -
  assume n: "2 \<le> length xs"
  then have ne: "xs \<noteq> []" by auto
  have m: "mean_fl (map Num xs) = Num (mean_real xs)"
    using ne by (rule mean_fl_Num)
  have "fl_sum (map (sq_dev (Num (mean_real xs))) (map Num xs)) = Num (ssqdm xs)"
    unfolding map_sq_dev_Num fl_sum_Num by (simp add: ssqdm_def)
  moreover have "real (length xs) - 1 \<noteq> 0" using n by simp
  ultimately show ?thesis
    using n by (simp add: var_fl_def valid_Num m Let_def)
qed

lemma ssqdm_nonneg: "0 \<le> ssqdm xs"
  unfolding ssqdm_def by (rule sum_list_nonneg) auto

lemma std_fl_Num: "2 \<le> length xs \<Longrightarrow> std_fl (map Num xs) = Num (sample_std xs)"
proof -
  assume n: "2 \<le> length xs"
  then have "0 \<le> ssqdm xs / (real (length xs) - 1)"
    using ssqdm_nonneg [of xs] by simp
  then show ?thesis
    using n by (simp add: std_fl_def var_fl_Num sample_std_def)
qed

lemma sharpe_Num:
  assumes "2 \<le> length xs"
  shows "sharpe (Num rf) (map Num xs) =
           fl_div (Num (mean_real xs * 252 - rf)) (Num (sample_std xs * sqrt 252))"
proof -
  from assms have ne: "xs \<noteq> []" by auto
  show ?thesis
    by (simp add: sharpe_def mean_fl_Num [OF ne] std_fl_Num [OF assms] fl_sub_def)
qed

lemma sharpe_valid: "sharpe rf (valid g) = sharpe rf g"
  by (simp add: sharpe_def mean_fl_valid std_fl_valid)

lemma map_of_group_agg:
  "map_of (group_agg f df) t = (if t \<in> set (group_keys df) then Some (f (group_values df t)) else None)"
  by (simp add: group_agg_def map_of_map_restrict restrict_map_def)

lemma group_key_iff: "t \<in> set (group_keys df) \<longleftrightarrow> group_values df t \<noteq> []"
  by (auto simp: group_keys_def group_values_def filter_empty_conv)

lemma valid_nonempty: "valid g = map Num xs \<Longrightarrow> xs \<noteq> [] \<Longrightarrow> g \<noteq> []"
  by (auto simp: valid_def)

subsection \<open>The Sharpe ratio\<close>

text \<open>
  Claim C7. For a ticker whose returns that are not NaN are the finite values \<open>xs\<close>,
  at least two of them, the Sharpe ratio of the ticker is the annualized mean
  \<open>mean * 252\<close> minus the risk-free rate, divided by the annualized sample standard
  deviation \<open>std * sqrt 252\<close> (\<open>N - 1\<close> denominator); the risk-free rate is 0 when
  the argument is left out. The division is the one of floats, so that for a non-zero
  standard deviation the value is the quotient of the reals.
\<close>

theorem sharpe_ratio_formula:
  assumes "valid (group_values df t) = map Num xs" and "2 \<le> length xs"
  shows "map_of (calculate_sharpe_ratio df (Num rf)) t =
           Some (fl_div (Num (mean_real xs * 252 - rf)) (Num (sample_std xs * sqrt 252)))
       \<and> map_of (calculate_sharpe_ratio_default df) t =
           Some (fl_div (Num (mean_real xs * 252 - 0)) (Num (sample_std xs * sqrt 252)))
       \<and> (sample_std xs \<noteq> 0 \<longrightarrow>
            map_of (calculate_sharpe_ratio df (Num rf)) t =
              Some (Num ((mean_real xs * 252 - rf) / (sample_std xs * sqrt 252))))"
proof -
  from assms(2) have "xs \<noteq> []" by auto
  with assms(1) have key: "t \<in> set (group_keys df)"
    by (simp add: group_key_iff valid_nonempty)
  have s: "sharpe (Num r) (group_values df t) =
             fl_div (Num (mean_real xs * 252 - r)) (Num (sample_std xs * sqrt 252))" for r
    using sharpe_Num [OF assms(2), of r] assms(1) sharpe_valid [of "Num r" "group_values df t"]
    by simp
  have 1: "map_of (calculate_sharpe_ratio df (Num r)) t =
           Some (fl_div (Num (mean_real xs * 252 - r)) (Num (sample_std xs * sqrt 252)))" for r
    using key by (simp add: calculate_sharpe_ratio_def map_of_group_agg s)
  have 3: "map_of (calculate_sharpe_ratio df (Num rf)) t =
              Some (Num ((mean_real xs * 252 - rf) / (sample_std xs * sqrt 252)))"
    if "sample_std xs \<noteq> 0"
    using that by (simp add: 1)
  from 1 [of rf] 1 [of 0] 3 show ?thesis
    by (simp add: calculate_sharpe_ratio_default_def)
qed

theorem sharpe_ratio_formula_witness:
  "valid (group_values dfS ''NVDA'') = map Num [1, 3] \<and> (2::nat) \<le> length [1::real, 3]
   \<and> sample_std [1, 3] \<noteq> 0
   \<and> map_of (calculate_sharpe_ratio dfS (Num 0)) ''NVDA'' = Some (Num (504 / (sqrt 2 * sqrt 252)))"
proof -
  have 1: "valid (group_values dfS ''NVDA'') = map Num [1, 3]"
    by (simp add: valid_def group_values_def dfS_def)
  have 2: "(2::nat) \<le> length [1::real, 3]" by simp
  have 3: "sample_std [1, 3] = sqrt 2"
    by (simp add: sample_std_def ssqdm_def mean_real_def)
  have 4: "mean_real [1, 3] = 2"
    by (simp add: mean_real_def)
  from sharpe_ratio_formula [OF 1 2, of 0] 1 2 3 4 show ?thesis by simp
qed

subsection \<open>Degenerate series\<close>


lemma fl_mul_NaN: "fl_mul a NaN = NaN"
  by (cases a) simp_all

lemma fl_add_NaN: "fl_add a NaN = NaN"
  by (cases a) simp_all

lemma annualize_NaN: "annualize NaN = NaN"
  by (simp add: annualize_def)

lemma annualize_Num: "annualize (Num s) = Num (s * sqrt 252)"
  by (simp add: annualize_def)

lemma std_fl_few: "length (valid g) \<le> 1 \<Longrightarrow> std_fl g = NaN"
  by (simp add: std_fl_def var_fl_def Let_def)





lemma map_Num_replicate: "map Num (replicate n c) = replicate n (Num c)"
  by simp




subsection \<open>What the calls leave behind\<close>



subsection \<open>Cumulative returns of the long frame\<close>

text \<open>
  Claim C1, evaluated on a frame with one record for each of two tickers: the entry of
  \<open>calculate_cumulative_returns\<close> in the row of the second ticker is
  \<open>1.1 * 1.2 - 1\<close>, the product over both tickers, whereas the running product
  over the returns of that ticker alone is \<open>0.2\<close>.
\<close>

theorem cumulative_returns_mixes_tickers:
  "extra_columns (calculate_cumulative_returns dfM) =
     [(''cumulative_return'', [Num (1/10), Num (8/25)])]
   \<and> group_values dfM ''QQQ'' = [Num (1/5)]
   \<and> cumulative (group_values dfM ''QQQ'') = [Num (1/5)]"
  by (simp add: dfM_def calculate_cumulative_returns_def cumulative_def cumprod_def fl_sub_def
      group_values_def)


subsection \<open>Columns of the pivot\<close>

lemma length_column: "length (column w j) = length (body w)"
  by (simp add: column_def)

lemma column_map_columns:
  assumes "j < length (columns w)" and "\<And>c. length (f c) = length c"
  shows "column (map_columns f w) j = f (column w j)"
proof -
  have "column (map_columns f w) j = map (\<lambda>i. f (column w j) ! i) [0..<length (body w)]"
    using assms(1) by (simp add: column_def map_columns_def Let_def)
  also have "\<dots> = map (\<lambda>i. f (column w j) ! i) [0..<length (f (column w j))]"
    by (simp add: assms(2) length_column)
  also have "\<dots> = f (column w j)"
    by (rule map_nth)
  finally show ?thesis .
qed

lemma pivot_columns: "pivot df = Inr p \<Longrightarrow> columns p = group_keys df"
  by (auto simp: pivot_def split: if_splits)

lemma pivot_column:
  assumes "pivot df = Inr p" and "j < length (columns p)"
  shows "column p j = map (\<lambda>d. cell (records df) d (columns p ! j)) (pivot_dates df)"
  using assms by (auto simp: pivot_def column_def split: if_splits)

lemmas upt_unfold = upt_rec [of _ "numeral _"] upt_rec [of 0]

subsection \<open>Correlation\<close>

lemma paired_map:
  "paired (map f ds) (map g ds) =
     map (\<lambda>d. (the_num (f d), the_num (g d))) (filter (\<lambda>d. isfinite (f d) \<and> isfinite (g d)) ds)"
proof (induction ds)
  case Nil
  then show ?case by (simp add: paired_def)
next
  case (Cons d ds)
  then show ?case
    by (cases "f d"; cases "g d") (simp_all add: paired_def)
qed

lemma paired_swap: "paired ys xs = map (\<lambda>(x, y). (y, x)) (paired xs ys)"
proof (induction xs arbitrary: ys)
  case Nil
  then show ?case by (simp add: paired_def)
next
  case (Cons x xs)
  show ?case
  proof (cases ys)
    case Nil
    then show ?thesis by (simp add: paired_def)
  next
    case (Cons y ys')
    have "paired ys' xs = map (\<lambda>(x, y). (y, x)) (paired xs ys')" by (rule Cons.IH)
    then show ?thesis
      using Cons by (cases x; cases y) (simp_all add: paired_def)
  qed
qed

lemma covxy_swap: "covxy (map (\<lambda>(x, y). (y, x)) ps) = covxy ps"
proof -
  have f: "map fst (map (\<lambda>(x, y). (y, x)) ps) = map snd ps"
    and s: "map snd (map (\<lambda>(x, y). (y, x)) ps) = map fst ps"
    by (simp_all add: split_def)
  show ?thesis
    unfolding covxy_def f s by (simp add: split_def o_def mult.commute)
qed

lemma nancorr_swap: "nancorr (map (\<lambda>(x, y). (y, x)) ps) = nancorr ps"
proof -
  have f: "map fst (map (\<lambda>(x, y). (y, x)) ps) = map snd ps"
    and s: "map snd (map (\<lambda>(x, y). (y, x)) ps) = map fst ps"
    by (simp_all add: split_def)
  show ?thesis
    unfolding nancorr_def f s covxy_swap by (simp add: mult.commute)
qed

lemma nancorr_paired_sym: "nancorr (paired xs ys) = nancorr (paired ys xs)"
  by (simp add: paired_swap [of ys xs] nancorr_swap)

lemma corr_entry_sym: "corr_entry w i j = corr_entry w j i"
  by (simp add: corr_entry_def max.commute min.commute)

lemma corr_entry_paired: "corr_entry w i j = nancorr (paired (column w i) (column w j))"
proof (cases "i \<le> j")
  case True
  then have "corr_entry w i j = nancorr (paired (column w j) (column w i))"
    by (simp add: corr_entry_def max_def min_def)
  then show ?thesis by (simp add: nancorr_paired_sym)
next
  case False
  then show ?thesis
    by (simp add: corr_entry_def max_def min_def)
qed

lemma corr_entry_pivot:
  assumes "pivot df = Inr p" and "i < length (columns p)" and "j < length (columns p)"
  shows "corr_entry p i j = nancorr (common_returns df (columns p ! i) (columns p ! j))"
  by (simp add: corr_entry_paired pivot_column [OF assms(1)] assms paired_map
      common_returns_def common_dates_def)

lemma covxy_diag: "map fst ps = map snd ps \<Longrightarrow> covxy ps = ssqdm (map fst ps)"
proof -
  assume e: "map fst ps = map snd ps"
  have "covxy ps = sum_list (map (\<lambda>p. (fst p - mean_real (map fst ps)) * (snd p - mean_real (map fst ps))) ps)"
    by (simp add: covxy_def e split_def)
  also have "map (\<lambda>p. (fst p - mean_real (map fst ps)) * (snd p - mean_real (map fst ps))) ps
           = map (\<lambda>p. (fst p - mean_real (map fst ps)) * (fst p - mean_real (map fst ps))) ps"
    using e by (induction ps) auto
  finally show ?thesis by (simp add: ssqdm_def o_def)
qed

lemma nancorr_diag:
  assumes "map fst ps = map snd ps"
  shows "nancorr ps = (if ssqdm (map fst ps) = 0 then NaN else Num 1)"
proof (cases "ssqdm (map fst ps) = 0")
  case True
  then show ?thesis by (simp add: nancorr_def Let_def)
next
  case False
  then have pos: "0 < ssqdm (map fst ps)"
    using ssqdm_nonneg [of "map fst ps"] by simp
  then have ne: "ps \<noteq> []" by (auto simp: ssqdm_def)
  have d: "sqrt (ssqdm (map fst ps) * ssqdm (map snd ps)) = ssqdm (map fst ps)"
    using pos by (simp add: assms [symmetric])
  show ?thesis
    using False ne by (simp add: nancorr_def Let_def d covxy_diag [OF assms] Suc_le_eq)
qed

lemma common_returns_diag:
  "map fst (common_returns df a a) = map snd (common_returns df a a)"
  by (simp add: common_returns_def o_def)

lemma corr_at_matrix:
  assumes "distinct (columns p)" and "i < length (columns p)" and "j < length (columns p)"
  shows "corr_at (calculate_correlation p) (columns p ! i) (columns p ! j) = Some (corr_entry p i j)"
proof -
  let ?n = "length (columns p)"
  let ?row = "\<lambda>i. map (\<lambda>j. (columns p ! j, corr_entry p i j)) [0..<?n]"
  have keys: "map fst (map (\<lambda>i. (columns p ! i, ?row i)) [0..<?n]) = columns p"
    by (simp add: o_def map_nth)
  have "(columns p ! i, ?row i) \<in> set (map (\<lambda>i. (columns p ! i, ?row i)) [0..<?n])"
    using assms(2) by auto
  then have 1: "map_of (calculate_correlation p) (columns p ! i) = Some (?row i)"
    unfolding calculate_correlation_def Let_def
    by (intro map_of_is_SomeI) (simp_all only: keys assms(1))
  have rkeys: "map fst (?row i) = columns p"
    by (simp add: o_def map_nth)
  have "(columns p ! j, corr_entry p i j) \<in> set (?row i)"
    using assms(3) by auto
  then have 2: "map_of (?row i) (columns p ! j) = Some (corr_entry p i j)"
    by (intro map_of_is_SomeI) (simp_all only: rkeys assms(1))
  from 1 2 show ?thesis by (simp add: corr_at_def)
qed

lemma distinct_group_keys: "distinct (group_keys df)"
  by (simp add: group_keys_def)

text \<open>
  The statement of claim C6 fails on the frame \<open>dfC\<close> of two tickers: the returns of
  NVDA are constant, the divisor of its correlation with itself is zero, and the
  diagonal entry is NaN instead of 1.
\<close>

theorem correlation_diagonal_counterexample:
  "pivot dfC = Inr pC
   \<and> length (group_keys dfC) = 2
   \<and> corr_at (calculate_correlation pC) ''NVDA'' ''NVDA'' = Some NaN"
  by (simp add: pivot_def pivot_dates_def group_keys_def dfC_def pC_def cell_def
      calculate_correlation_def corr_at_def corr_entry_def column_def paired_def nancorr_def
      ssqdm_def mean_real_def upt_unfold)

text \<open>
  Claim C6, as amended. The entry of the correlation matrix for two tickers of the
  pivot is the Pearson correlation of their returns over exactly the dates on which
  both have a finite return; the matrix is symmetric; and a diagonal entry is 1 when
  the finite returns of the ticker are not all equal, and NaN otherwise.
\<close>

theorem correlation_pairwise:
  assumes "pivot df = Inr p" and "i < length (columns p)" and "j < length (columns p)"
  shows "corr_at (calculate_correlation p) (columns p ! i) (columns p ! j) =
           Some (nancorr (common_returns df (columns p ! i) (columns p ! j)))
       \<and> corr_at (calculate_correlation p) (columns p ! i) (columns p ! j) =
           corr_at (calculate_correlation p) (columns p ! j) (columns p ! i)
       \<and> corr_at (calculate_correlation p) (columns p ! i) (columns p ! i) =
           Some (if ssqdm (map fst (common_returns df (columns p ! i) (columns p ! i))) = 0
                 then NaN else Num 1)"
proof -
  have d: "distinct (columns p)"
    using pivot_columns [OF assms(1)] by (simp add: distinct_group_keys)
  have 1: "corr_at (calculate_correlation p) (columns p ! i) (columns p ! j) =
           Some (nancorr (common_returns df (columns p ! i) (columns p ! j)))"
    by (simp add: corr_at_matrix [OF d assms(2,3)] corr_entry_pivot [OF assms])
  have 2: "corr_at (calculate_correlation p) (columns p ! i) (columns p ! j) =
           corr_at (calculate_correlation p) (columns p ! j) (columns p ! i)"
    by (simp add: corr_at_matrix [OF d assms(2,3)] corr_at_matrix [OF d assms(3,2)]
        corr_entry_sym [of p i j])
  have 3: "corr_at (calculate_correlation p) (columns p ! i) (columns p ! i) =
           Some (if ssqdm (map fst (common_returns df (columns p ! i) (columns p ! i))) = 0
                 then NaN else Num 1)"
    by (simp only: corr_at_matrix [OF d assms(2,2)] corr_entry_pivot [OF assms(1,2,2)]
        nancorr_diag [OF common_returns_diag])
  from 1 2 3 show ?thesis by blast
qed

theorem correlation_pairwise_witness:
  "pivot dfO = Inr pO \<and> (0::nat) < length (columns pO) \<and> (1::nat) < length (columns pO)
   \<and> common_dates dfO ''NVDA'' ''QQQ'' = [3, 4]
   \<and> common_returns dfO ''NVDA'' ''QQQ'' = [(1, 2), (3, 6)]
   \<and> corr_at (calculate_correlation pO) ''NVDA'' ''QQQ'' = Some (Num 1)
   \<and> corr_at (calculate_correlation pO) ''QQQ'' ''NVDA'' = Some (Num 1)"
proof -
  have pd: "pivot_dates dfO = [1, 2, 3, 4, 5]"
    by (simp add: pivot_dates_def dfO_def)
  have 1: "pivot dfO = Inr pO"
    by (simp add: pivot_def pivot_dates_def group_keys_def dfO_def pO_def cell_def)
  have 2: "(0::nat) < length (columns pO)" by (simp add: pO_def)
  have 3: "(1::nat) < length (columns pO)" by (simp add: pO_def)
  have c: "columns pO ! 0 = ''NVDA''" "columns pO ! Suc 0 = ''QQQ''" by (simp_all add: pO_def)
  have cd: "common_dates dfO ''NVDA'' ''QQQ'' = [3, 4]"
    by (simp add: common_dates_def pivot_dates_def dfO_def cell_def)
  have cr: "common_returns dfO ''NVDA'' ''QQQ'' = [(1, 2), (3, 6)]"
    by (simp add: common_returns_def cd) (simp add: dfO_def cell_def)
  have "sqrt 16 = 4"
    by (rule real_sqrt_unique) simp_all
  then have n: "nancorr [(1, 2), (3, 6)] = Num 1"
    by (simp add: nancorr_def ssqdm_def covxy_def mean_real_def)
  from correlation_pairwise [OF 1 2 3] 1 2 3 cd cr n
  show ?thesis by (auto simp: c)
qed

subsection \<open>Rolling volatility\<close>

lemma length_rolling_std: "length (rolling_std w xs) = length xs"
  by (simp add: rolling_std_def)

lemma rolling_std_nth:
  "i < length xs \<Longrightarrow>
     rolling_std w xs ! i = window_std w (take (min w (i + 1)) (drop (i + 1 - w) xs))"
  by (simp add: rolling_std_def)

lemma column_rolling_volatility:
  "j < length (columns p) \<Longrightarrow>
     column (rolling_volatility w p) j = map annualize (rolling_std w (column p j))"
  unfolding rolling_volatility_def
  by (rule column_map_columns) (simp_all add: length_rolling_std)

lemma finite_Num: "list_all isfinite ws \<Longrightarrow> map Num (map the_num ws) = ws"
proof (induction ws)
  case Nil
  then show ?case by simp
next
  case (Cons x ws)
  then show ?case by (cases x) simp_all
qed

lemma observations_all: "list_all isfinite ws \<Longrightarrow> observations ws = ws"
  by (simp add: observations_def list_all_iff)

lemma observations_fewer: "\<not> list_all isfinite ws \<Longrightarrow> length (observations ws) < length ws"
proof -
  assume "\<not> list_all isfinite ws"
  then obtain x where "x \<in> set ws" and "\<not> isfinite x"
    by (auto simp: list_all_iff)
  then show ?thesis
    unfolding observations_def by (rule length_filter_less)
qed

lemma window_std_short: "length ws < w \<Longrightarrow> window_std w ws = NaN"
proof -
  assume "length ws < w"
  moreover have "length (observations ws) \<le> length ws"
    by (simp add: observations_def)
  ultimately show ?thesis by (simp add: window_std_def Let_def)
qed

lemma window_std_gap: "length ws \<le> w \<Longrightarrow> \<not> list_all isfinite ws \<Longrightarrow> window_std w ws = NaN"
  using observations_fewer [of ws] by (simp add: window_std_def Let_def)

lemma window_std_tiny: "w < 2 \<Longrightarrow> length ws \<le> w \<Longrightarrow> window_std w ws = NaN"
proof -
  assume w: "w < 2" and l: "length ws \<le> w"
  have "length (valid (observations ws)) \<le> length ws"
    unfolding valid_def observations_def
    by (rule order_trans [OF length_filter_le length_filter_le])
  with w l have "length (valid (observations ws)) \<le> 1" by simp
  then have "std_fl (observations ws) = NaN" by (rule std_fl_few)
  then show ?thesis by (simp add: window_std_def Let_def)
qed

lemma window_std_full:
  assumes "length ws = w" and "list_all isfinite ws" and "2 \<le> w"
  shows "window_std w ws = Num (sample_std (map the_num ws))"
proof -
  have "std_fl (map Num (map the_num ws)) = Num (sample_std (map the_num ws))"
    using assms(1,3) by (intro std_fl_Num) simp
  then have "std_fl ws = Num (sample_std (map the_num ws))"
    unfolding finite_Num [OF assms(2)] .
  then show ?thesis
    using assms by (simp add: window_std_def Let_def observations_all)
qed

lemma window_std_cases:
  assumes "length ws \<le> w"
  shows "window_std w ws =
     (if length ws = w \<and> list_all isfinite ws \<and> 2 \<le> w
      then Num (sample_std (map the_num ws)) else NaN)"
proof (cases "length ws = w \<and> list_all isfinite ws \<and> 2 \<le> w")
  case True
  then show ?thesis by (simp add: window_std_full)
next
  case False
  then consider "length ws < w" | "\<not> list_all isfinite ws" | "w < 2"
    using assms by linarith
  then have "window_std w ws = NaN"
  proof cases
    case 1
    then show ?thesis by (rule window_std_short)
  next
    case 2
    with assms show ?thesis by (intro window_std_gap)
  next
    case 3
    with assms show ?thesis by (intro window_std_tiny)
  qed
  with False show ?thesis by simp
qed

lemma length_pivot_body: "pivot df = Inr p \<Longrightarrow> length (body p) = length (pivot_dates df)"
  by (auto simp: pivot_def split: if_splits)

lemma window_of_pivot_column:
  assumes "pivot df = Inr p" and "j < length (columns p)"
  shows "take (min w (i + 1)) (drop (i + 1 - w) (column p j)) = window_cells df (columns p ! j) w i"
  by (simp add: pivot_column [OF assms] window_cells_def window_dates_def take_map drop_map)

lemma length_window_dates:
  "i < length (pivot_dates df) \<Longrightarrow>
     length (window_dates df w i) = min w (i + 1)"
  by (auto simp: window_dates_def min_def)

lemma rolling_entry:
  assumes "pivot df = Inr p" and "j < length (columns p)" and "i < length (pivot_dates df)"
  shows "column (rolling_volatility w p) j ! i =
     (if w \<le> i + 1 \<and> list_all isfinite (window_cells df (columns p ! j) w i) \<and> 2 \<le> w
      then Num (sample_std (map the_num (window_cells df (columns p ! j) w i)) * sqrt 252)
      else NaN)"
proof -
  let ?ws = "window_cells df (columns p ! j) w i"
  have len: "length ?ws = min w (i + 1)"
    using assms(3) by (simp add: window_cells_def length_window_dates)
  have i: "i < length (column p j)"
    using assms(3) length_pivot_body [OF assms(1)] by (simp add: length_column)
  have "column (rolling_volatility w p) j ! i = annualize (rolling_std w (column p j) ! i)"
    using i by (simp add: column_rolling_volatility [OF assms(2)] length_rolling_std)
  also have "\<dots> = annualize (window_std w ?ws)"
    unfolding rolling_std_nth [OF i] window_of_pivot_column [OF assms(1,2)] ..
  also have "window_std w ?ws =
     (if length ?ws = w \<and> list_all isfinite ?ws \<and> 2 \<le> w
      then Num (sample_std (map the_num ?ws)) else NaN)"
    by (rule window_std_cases) (simp add: len)
  also have "length ?ws = w \<longleftrightarrow> w \<le> i + 1"
    by (auto simp: len min_def)
  finally show ?thesis
    by (simp add: annualize_NaN annualize_Num)
qed

text \<open>
  The statement of claim C5 fails on the frame \<open>df30\<close>: QQQ has thirty returns of
  its own, so the entry at position 29 of its own sequence would be the standard
  deviation of all thirty. But NVDA has a return on one more date, the pivot has a row
  for that date in which the cell of QQQ is NaN, both windows of thirty rows contain
  that row, and every entry of the rolling volatility of QQQ is NaN.
\<close>

theorem rolling_window_counterexample:
  "pivot df30 = Inr p30
   \<and> columns p30 ! 1 = ''QQQ''
   \<and> length (group_values df30 ''QQQ'') = 30
   \<and> list_all isfinite (group_values df30 ''QQQ'')
   \<and> length (column (rolling_vol p30) 1) = 31
   \<and> list_all isnan (column (rolling_vol p30) 1)"
proof -
  have 1: "pivot df30 = Inr p30"
    by (simp add: pivot_def pivot_dates_def group_keys_def df30_def p30_def cell_def upt_unfold)
  have 2: "length (group_values df30 ''QQQ'') = 30 \<and> list_all isfinite (group_values df30 ''QQQ'')"
    by (simp add: group_values_def df30_def upt_unfold)
  have 3: "length (column (rolling_vol p30) 1) = 31 \<and> list_all isnan (column (rolling_vol p30) 1)"
    by (simp add: rolling_vol_def rolling_volatility_def map_columns_def column_def p30_def
        rolling_std_def window_std_def observations_def annualize_def upt_unfold Let_def)
  have 4: "columns p30 ! 1 = ''QQQ''"
    by (simp add: p30_def)
  from 1 2 3 4 show ?thesis by blast
qed

text \<open>
  Claim C5, as amended. The rolling volatility of a ticker is indexed by the dates of
  the pivot, which are the dates of all tickers: the entry of row \<open>i\<close> is defined only
  if the window is at least 2, the rows \<open>i - window + 1 .. i\<close> exist and the ticker has
  a finite return on every one of these dates; it is then the sample standard deviation
  of these returns times \<open>sqrt 252\<close>. In every other case, also when the ticker has
  no return on a date of the window that another ticker has, the entry is NaN. The
  entry depends on the cells of its own ticker only.
\<close>

theorem rolling_volatility_entry:
  assumes "pivot df = Inr p" and "j < length (columns p)" and "i < length (pivot_dates df)"
  shows "column (rolling_volatility w p) j ! i =
     (if w \<le> i + 1 \<and> list_all isfinite (window_cells df (columns p ! j) w i) \<and> 2 \<le> w
      then Num (sample_std (map the_num (window_cells df (columns p ! j) w i)) * sqrt 252)
      else NaN)"
  using assms by (rule rolling_entry)

theorem rolling_volatility_entry_witness:
  "pivot dfW = Inr pW \<and> (0::nat) < length (columns pW) \<and> (2::nat) < length (pivot_dates dfW)
   \<and> column (rolling_volatility 3 pW) 0 ! 1 = NaN
   \<and> window_cells dfW ''NVDA'' 3 2 = [Num 1, Num 2, Num 3]
   \<and> column (rolling_volatility 3 pW) 0 ! 2 = Num (sqrt 252)"
proof -
  have pd: "pivot_dates dfW = [1, 2, 3, 4, 5]"
    by (simp add: pivot_dates_def dfW_def)
  have 1: "pivot dfW = Inr pW"
    by (simp add: pivot_def pivot_dates_def group_keys_def dfW_def pW_def cell_def)
  have 2: "(0::nat) < length (columns pW)" by (simp add: pW_def)
  have 3: "(2::nat) < length (pivot_dates dfW)" by (simp add: pd)
  have 4: "(1::nat) < length (pivot_dates dfW)" by (simp add: pd)
  have c: "columns pW ! 0 = ''NVDA''" by (simp add: pW_def)
  have w: "window_cells dfW ''NVDA'' 3 2 = [Num 1, Num 2, Num 3]"
    by (simp add: window_cells_def window_dates_def pivot_dates_def dfW_def cell_def)
  have s: "sample_std [1, 2, 3] = 1"
    by (simp add: sample_std_def ssqdm_def mean_real_def)
  from rolling_volatility_entry [OF 1 2 4, of 3] rolling_volatility_entry [OF 1 2 3, of 3] 1 2 3 w s
  show ?thesis by (simp add: c)
qed

subsection \<open>Cumulative returns of the pivot\<close>







lemma running_product_constant:
  "i < n \<Longrightarrow> running_product (replicate n r) ! i = (1 + r) ^ (i + 1) - 1"
  by (simp add: running_product_def min_def prod_list_replicate del: upt_Suc)


section \<open>Degenerate series\<close>































section \<open>What the calls leave in the store\<close>





lemma frame_at_object: "frame_at s a = Some f \<Longrightarrow> s ! a = DataFrame f"
  by (auto simp: frame_at_def split: if_splits object.splits)


lemma group_keys_records: "records f' = records f \<Longrightarrow> group_keys f' = group_keys f"
  by (simp add: group_keys_def)

lemma group_values_records: "records f' = records f \<Longrightarrow> group_values f' = group_values f"
  by (simp add: group_values_def fun_eq_iff)








end
